theory Spec2Isabelle
  imports Complex_Main "HOL-Library.Monad_Syntax"
begin

section \<open>Python values and list operations\<close>

text \<open>
  An hourly sample of the provider's JSON is a number or \<open>null\<close>: \<open>Some x\<close> or \<open>None\<close>.
  Python's \<open>int\<close> and \<open>float\<close> are both read as real numbers (\<open>0 == 0.0\<close> in Python).

  Every exception raised inside the \<open>try\<close> block of \<open>get_comprehensive_weather\<close> is
  caught by \<open>except Exception\<close> and turned into the return value \<open>None\<close>; the operations
  below therefore return \<open>None\<close> where Python raises.
\<close>

type_synonym reading = "real option"

text \<open>\<open>xs[i]\<close> for \<open>i \<ge> 0\<close>; \<open>IndexError\<close> when \<open>i\<close> is out of range.\<close>

definition py_index :: "'a list \<Rightarrow> nat \<Rightarrow> 'a option" where
  "py_index xs i = (if i < length xs then Some (xs ! i) else None)"

text \<open>\<open>xs[a:b]\<close> for \<open>a, b \<ge> 0\<close>; a slice never raises, it is clipped to the list.\<close>

definition py_slice :: "'a list \<Rightarrow> nat \<Rightarrow> nat \<Rightarrow> 'a list" where
  "py_slice xs a b = take (b - a) (drop a xs)"

text \<open>\<open>sum(xs)\<close>: a left fold from \<open>0\<close>; adding \<open>None\<close> raises \<open>TypeError\<close>.\<close>

definition py_sum :: "reading list \<Rightarrow> real option" where
  "py_sum xs = foldl (\<lambda>acc x. do { a \<leftarrow> acc; v \<leftarrow> x; Some (a + v) }) (Some 0) xs"

text \<open>\<open>x in xs\<close> followed by \<open>xs.index(x)\<close>: the first position of \<open>x\<close>, if any.\<close>

fun index_of :: "'a list \<Rightarrow> 'a \<Rightarrow> nat option" where
  "index_of [] x = None"
| "index_of (y # ys) x = (if y = x then Some 0 else map_option Suc (index_of ys x))"

section \<open>The hourly series and the feature record\<close>

text \<open>
  The \<open>hourly\<close> object of the response: the list under \<open>'time'\<close> (\<open>hourly.get('time', [])\<close>)
  and, for each measurement name, the list of its samples (\<open>hourly[k]\<close>, \<open>KeyError\<close>
  when the name is absent).
\<close>

record hourly_data =
  hourly_time :: "string list"
  series :: "string \<Rightarrow> reading list option"

text \<open>The dictionary returned by \<open>get_comprehensive_weather\<close>, one field per key.\<close>

record weather =
  venue :: string
  country :: string
  race_datetime :: string
  temperature :: reading
  apparent_temperature :: reading
  precipitation_current :: reading
  rain_current :: reading
  wind_speed :: reading
  wind_direction :: reading
  wind_gusts :: reading
  humidity :: reading
  dew_point :: reading
  pressure :: reading
  cloud_cover :: reading
  visibility :: reading
  weather_code :: reading
  precipitation_probability :: reading
  soil_moisture_0_1cm :: reading
  soil_moisture_1_3cm :: reading
  soil_moisture_3_9cm :: reading
  soil_temperature_0cm :: reading
  soil_temperature_6cm :: reading
  evapotranspiration :: reading
  rainfall_1h :: reading
  rainfall_3h :: real
  rainfall_6h :: real
  rainfall_24h :: real
  rainfall_7d :: real
  ground_saturation_index :: real
  net_moisture_24h :: real
  hours_since_rain :: nat
  predicted_going :: string
  track_drying :: bool
  track_wetting :: bool
  temp_unit :: string
  wind_unit :: string
  precip_unit :: string
  data_quality :: string
  fetched_at :: string

section \<open>Feature derivation (weather.py, get_comprehensive_weather)\<close>

text \<open>\<open>hourly[k][i]\<close>: \<open>KeyError\<close> or \<open>IndexError\<close> give \<open>None\<close>; the sample itself may be null.\<close>

definition hourly_at :: "hourly_data \<Rightarrow> string \<Rightarrow> nat \<Rightarrow> reading option" where
  "hourly_at hourly k i = do { xs \<leftarrow> series hourly k; py_index xs i }"

text \<open>\<open>hourly[k][i]\<close> used in arithmetic or in a comparison: a null sample raises \<open>TypeError\<close>.\<close>

definition hourly_num :: "hourly_data \<Rightarrow> string \<Rightarrow> nat \<Rightarrow> real option" where
  "hourly_num hourly k i = do { r \<leftarrow> hourly_at hourly k i; r }"

text \<open>\<open>sum(hourly[k][a:b])\<close>.\<close>

definition hourly_sum :: "hourly_data \<Rightarrow> string \<Rightarrow> nat \<Rightarrow> nat \<Rightarrow> real option" where
  "hourly_sum hourly k a b = do { xs \<leftarrow> series hourly k; py_sum (py_slice xs a b) }"

text \<open>
  \<open>sum(hourly['precipitation'][max(0,idx-n):idx]) if idx >= n else 0\<close>, the expression
  of \<open>rainfall_3h\<close>, \<open>rainfall_6h\<close> and \<open>rainfall_24h\<close> (lines 156 to 158).
\<close>

definition rainfall_window :: "hourly_data \<Rightarrow> nat \<Rightarrow> nat \<Rightarrow> real option" where
  "rainfall_window hourly idx n =
     (if idx \<ge> n
      then hourly_sum hourly ''precipitation'' (nat (max 0 (int idx - int n))) idx
      else Some 0)"

text \<open>
  The loop of lines 162 to 166: \<open>for i in range(idx-1, -1, -1)\<close>. The second argument
  is \<open>i + 1\<close>, the number of indices still to visit; the third is \<open>hours_since_rain\<close>.
\<close>

fun hours_since_rain_loop :: "hourly_data \<Rightarrow> nat \<Rightarrow> nat \<Rightarrow> nat option" where
  "hours_since_rain_loop hourly 0 hours = Some hours"
| "hours_since_rain_loop hourly (Suc i) hours = do {
     p \<leftarrow> hourly_num hourly ''precipitation'' i;
     if p > 0.1 then Some hours else hours_since_rain_loop hourly i (hours + 1)
   }"

text \<open>Lines 181 to 188: the going label of the surface soil moisture.\<close>

definition going_label :: "real \<Rightarrow> string" where
  "going_label soil_moisture_surface =
     (if soil_moisture_surface < 0.15 then ''Firm''
      else if soil_moisture_surface < 0.25 then ''Good''
      else if soil_moisture_surface < 0.35 then ''Soft''
      else ''Heavy'')"

text \<open>Lines 191 to 197: the pair \<open>(track_drying, track_wetting)\<close>.\<close>

definition track_trend :: "hourly_data \<Rightarrow> nat \<Rightarrow> real \<Rightarrow> (bool \<times> bool) option" where
  "track_trend hourly idx soil_moisture_surface =
     (if idx \<ge> 3
      then do {
        moisture_3h_ago \<leftarrow> hourly_num hourly ''soil_moisture_0_to_1cm'' (idx - 3);
        Some (soil_moisture_surface < moisture_3h_ago, soil_moisture_surface > moisture_3h_ago)
      }
      else Some (False, False))"

text \<open>
  The unit labels of the result (lines 244 to 246). The degree sign is written as its
  two UTF-8 bytes.
\<close>

definition unit_labels :: "string \<Rightarrow> string \<times> string \<times> string" where
  "unit_labels c =
     (if c = ''USA''
      then (CHR 0xC2 # CHR 0xB0 # ''F'', ''mph'', ''in'')
      else (CHR 0xC2 # CHR 0xB0 # ''C'', ''m/s'', ''mm''))"

text \<open>
  Lines 154 to 249, the branch taken when the race hour is found at position \<open>idx\<close> of
  the time list. \<open>race_iso\<close> is \<open>race_datetime.isoformat()\<close> and \<open>now_iso\<close> is
  \<open>datetime.now().isoformat()\<close>. The result is \<open>None\<close> when any step raises.
\<close>

definition weather_at ::
  "string \<Rightarrow> string \<Rightarrow> string \<Rightarrow> string \<Rightarrow> hourly_data \<Rightarrow> nat \<Rightarrow> weather option" where
  "weather_at v c race_iso now_iso hourly idx = do {
     r1h \<leftarrow> (if idx > 0 then hourly_at hourly ''precipitation'' idx else Some (Some 0));
     r3h \<leftarrow> rainfall_window hourly idx 3;
     r6h \<leftarrow> rainfall_window hourly idx 6;
     r24h \<leftarrow> rainfall_window hourly idx 24;
     r7d \<leftarrow> (if idx > 0 then hourly_sum hourly ''precipitation'' 0 idx else Some 0);
     hsr \<leftarrow> hours_since_rain_loop hourly idx 0;
     sm0 \<leftarrow> hourly_num hourly ''soil_moisture_0_to_1cm'' idx;
     sm1 \<leftarrow> hourly_num hourly ''soil_moisture_1_to_3cm'' idx;
     sm3 \<leftarrow> hourly_num hourly ''soil_moisture_3_to_9cm'' idx;
     et \<leftarrow> hourly_num hourly ''et0_fao_evapotranspiration'' idx;
     trend \<leftarrow> track_trend hourly idx sm0;
     f_temperature \<leftarrow> hourly_at hourly ''temperature_2m'' idx;
     f_apparent \<leftarrow> hourly_at hourly ''apparent_temperature'' idx;
     f_precipitation \<leftarrow> hourly_at hourly ''precipitation'' idx;
     f_rain \<leftarrow> hourly_at hourly ''rain'' idx;
     f_wind_speed \<leftarrow> hourly_at hourly ''wind_speed_10m'' idx;
     f_wind_direction \<leftarrow> hourly_at hourly ''wind_direction_10m'' idx;
     f_wind_gusts \<leftarrow> hourly_at hourly ''wind_gusts_10m'' idx;
     f_humidity \<leftarrow> hourly_at hourly ''relative_humidity_2m'' idx;
     f_dew_point \<leftarrow> hourly_at hourly ''dew_point_2m'' idx;
     f_pressure \<leftarrow> hourly_at hourly ''pressure_msl'' idx;
     f_cloud_cover \<leftarrow> hourly_at hourly ''cloud_cover'' idx;
     f_visibility \<leftarrow> hourly_at hourly ''visibility'' idx;
     f_weather_code \<leftarrow> hourly_at hourly ''weather_code'' idx;
     f_probability \<leftarrow> hourly_at hourly ''precipitation_probability'' idx;
     f_sm0 \<leftarrow> hourly_at hourly ''soil_moisture_0_to_1cm'' idx;
     f_sm1 \<leftarrow> hourly_at hourly ''soil_moisture_1_to_3cm'' idx;
     f_sm3 \<leftarrow> hourly_at hourly ''soil_moisture_3_to_9cm'' idx;
     f_st0 \<leftarrow> hourly_at hourly ''soil_temperature_0cm'' idx;
     f_st6 \<leftarrow> hourly_at hourly ''soil_temperature_6cm'' idx;
     f_et \<leftarrow> hourly_at hourly ''et0_fao_evapotranspiration'' idx;
     Some \<lparr>
       venue = v,
       country = c,
       race_datetime = race_iso,
       temperature = f_temperature,
       apparent_temperature = f_apparent,
       precipitation_current = f_precipitation,
       rain_current = f_rain,
       wind_speed = f_wind_speed,
       wind_direction = f_wind_direction,
       wind_gusts = f_wind_gusts,
       humidity = f_humidity,
       dew_point = f_dew_point,
       pressure = f_pressure,
       cloud_cover = f_cloud_cover,
       visibility = f_visibility,
       weather_code = f_weather_code,
       precipitation_probability = f_probability,
       soil_moisture_0_1cm = f_sm0,
       soil_moisture_1_3cm = f_sm1,
       soil_moisture_3_9cm = f_sm3,
       soil_temperature_0cm = f_st0,
       soil_temperature_6cm = f_st6,
       evapotranspiration = f_et,
       rainfall_1h = r1h,
       rainfall_3h = r3h,
       rainfall_6h = r6h,
       rainfall_24h = r24h,
       rainfall_7d = r7d,
       ground_saturation_index = sm0 * 0.5 + sm1 * 0.3 + sm3 * 0.2,
       net_moisture_24h = r24h - et * 24,
       hours_since_rain = hsr,
       predicted_going = going_label sm0,
       track_drying = fst trend,
       track_wetting = snd trend,
       temp_unit = fst (unit_labels c),
       wind_unit = fst (snd (unit_labels c)),
       precip_unit = snd (snd (unit_labels c)),
       data_quality = ''comprehensive'',
       fetched_at = now_iso
     \<rparr>
   }"

text \<open>The measurements requested from the provider (lines 105 to 126).\<close>

definition hourly_fields :: "string list" where
  "hourly_fields =
     [''temperature_2m'', ''apparent_temperature'', ''precipitation'', ''rain'',
      ''wind_speed_10m'', ''wind_direction_10m'', ''wind_gusts_10m'',
      ''relative_humidity_2m'', ''dew_point_2m'', ''soil_moisture_0_to_1cm'',
      ''soil_moisture_1_to_3cm'', ''soil_moisture_3_to_9cm'', ''soil_temperature_0cm'',
      ''soil_temperature_6cm'', ''et0_fao_evapotranspiration'', ''pressure_msl'',
      ''cloud_cover'', ''visibility'', ''weather_code'', ''precipitation_probability'']"

text \<open>
  A response is complete up to \<open>idx\<close> when every requested measurement is present, reaches
  position \<open>idx\<close> and has no null sample up to it.
\<close>

definition complete_upto :: "hourly_data \<Rightarrow> nat \<Rightarrow> bool" where
  "complete_upto hourly idx =
     (\<forall>k \<in> set hourly_fields.
        case series hourly k of
          None \<Rightarrow> False
        | Some xs \<Rightarrow> idx < length xs \<and> None \<notin> set (take (Suc idx) xs))"

section \<open>The venue catalog (weather.py, VENUE_COORDS)\<close>

record coords =
  lat :: real
  lon :: real
  country_of :: string
  tz :: string

text \<open>The dictionary in the order of the source, which is the order of iteration.\<close>

definition VENUE_COORDS :: "(string \<times> coords) list" where
  "VENUE_COORDS =
     [
      (''Newbury'', \<lparr>lat = 51.4008, lon = (-1.3267), country_of = ''UK'', tz = ''Europe/London''\<rparr>),
      (''Cheltenham'', \<lparr>lat = 51.9117, lon = (-2.0493), country_of = ''UK'', tz = ''Europe/London''\<rparr>),
      (''Ascot'', \<lparr>lat = 51.4088, lon = (-0.6764), country_of = ''UK'', tz = ''Europe/London''\<rparr>),
      (''Kempton Park'', \<lparr>lat = 51.4175, lon = (-0.3867), country_of = ''UK'', tz = ''Europe/London''\<rparr>),
      (''Lingfield'', \<lparr>lat = 51.1817, lon = (-0.0100), country_of = ''UK'', tz = ''Europe/London''\<rparr>),
      (''Worcester'', \<lparr>lat = 52.1886, lon = (-2.2274), country_of = ''UK'', tz = ''Europe/London''\<rparr>),
      (''Aintree'', \<lparr>lat = 53.4775, lon = (-2.9497), country_of = ''UK'', tz = ''Europe/London''\<rparr>),
      (''York'', \<lparr>lat = 53.9536, lon = (-1.0353), country_of = ''UK'', tz = ''Europe/London''\<rparr>),
      (''Sandown'', \<lparr>lat = 51.3867, lon = (-0.3644), country_of = ''UK'', tz = ''Europe/London''\<rparr>),
      (''Haydock'', \<lparr>lat = 53.4750, lon = (-2.6503), country_of = ''UK'', tz = ''Europe/London''\<rparr>),
      (''Doncaster'', \<lparr>lat = 53.5229, lon = (-1.0958), country_of = ''UK'', tz = ''Europe/London''\<rparr>),
      (''Newmarket'', \<lparr>lat = 52.2438, lon = 0.3611, country_of = ''UK'', tz = ''Europe/London''\<rparr>),
      (''Goodwood'', \<lparr>lat = 50.8692, lon = (-0.7464), country_of = ''UK'', tz = ''Europe/London''\<rparr>),
      (''Epsom'', \<lparr>lat = 51.3178, lon = (-0.2617), country_of = ''UK'', tz = ''Europe/London''\<rparr>),
      (''Ayr'', \<lparr>lat = 55.4583, lon = (-4.6333), country_of = ''UK'', tz = ''Europe/London''\<rparr>),
      (''Newcastle'', \<lparr>lat = 54.9783, lon = (-1.6178), country_of = ''UK'', tz = ''Europe/London''\<rparr>),
      (''Chepstow'', \<lparr>lat = 51.6431, lon = (-2.6764), country_of = ''UK'', tz = ''Europe/London''\<rparr>),
      (''Fontwell'', \<lparr>lat = 50.8667, lon = (-0.6167), country_of = ''UK'', tz = ''Europe/London''\<rparr>),
      (''Ludlow'', \<lparr>lat = 52.3667, lon = (-2.7333), country_of = ''UK'', tz = ''Europe/London''\<rparr>),
      (''Market Rasen'', \<lparr>lat = 53.4333, lon = (-0.3333), country_of = ''UK'', tz = ''Europe/London''\<rparr>),
      (''Sedgefield'', \<lparr>lat = 54.6667, lon = (-1.4667), country_of = ''UK'', tz = ''Europe/London''\<rparr>),
      (''Southwell'', \<lparr>lat = 53.0833, lon = (-0.9500), country_of = ''UK'', tz = ''Europe/London''\<rparr>),
      (''Uttoxeter'', \<lparr>lat = 52.9000, lon = (-1.8667), country_of = ''UK'', tz = ''Europe/London''\<rparr>),
      (''Wetherby'', \<lparr>lat = 53.9333, lon = (-1.3833), country_of = ''UK'', tz = ''Europe/London''\<rparr>),
      (''Wolverhampton'', \<lparr>lat = 52.5833, lon = (-2.1333), country_of = ''UK'', tz = ''Europe/London''\<rparr>),
      (''Bangor-on-Dee'', \<lparr>lat = 52.9910, lon = (-2.9235), country_of = ''UK'', tz = ''Europe/London''\<rparr>),
      (''Bath'', \<lparr>lat = 51.4183, lon = (-2.4094), country_of = ''UK'', tz = ''Europe/London''\<rparr>),
      (''Brighton'', \<lparr>lat = 50.8248, lon = (-0.1072), country_of = ''UK'', tz = ''Europe/London''\<rparr>),
      (''Chester'', \<lparr>lat = 53.1852, lon = (-2.8932), country_of = ''UK'', tz = ''Europe/London''\<rparr>),
      (''Ffos Las'', \<lparr>lat = 51.7311, lon = (-4.2400), country_of = ''UK'', tz = ''Europe/London''\<rparr>),
      (''Hexham'', \<lparr>lat = 54.9522, lon = (-2.1245), country_of = ''UK'', tz = ''Europe/London''\<rparr>),
      (''Newton Abbot'', \<lparr>lat = 50.5365, lon = (-3.5920), country_of = ''UK'', tz = ''Europe/London''\<rparr>),
      (''Plumpton'', \<lparr>lat = 50.9216, lon = (-0.0570), country_of = ''UK'', tz = ''Europe/London''\<rparr>),
      (''Ripon'', \<lparr>lat = 54.1207, lon = (-1.4923), country_of = ''UK'', tz = ''Europe/London''\<rparr>),
      (''Yarmouth'', \<lparr>lat = 52.6263, lon = 1.7338, country_of = ''UK'', tz = ''Europe/London''\<rparr>),
      (''Churchill Downs'', \<lparr>lat = 38.2048, lon = (-85.7702), country_of = ''USA'', tz = ''America/New_York''\<rparr>),
      (''Keeneland'', \<lparr>lat = 38.0403, lon = (-84.5909), country_of = ''USA'', tz = ''America/New_York''\<rparr>),
      (''Santa Anita'', \<lparr>lat = 34.1395, lon = (-118.0377), country_of = ''USA'', tz = ''America/Los_Angeles''\<rparr>),
      (''Del Mar'', \<lparr>lat = 32.9789, lon = (-117.2651), country_of = ''USA'', tz = ''America/Los_Angeles''\<rparr>),
      (''Gulfstream Park'', \<lparr>lat = 25.9898, lon = (-80.1373), country_of = ''USA'', tz = ''America/New_York''\<rparr>),
      (''Belmont Park'', \<lparr>lat = 40.7155, lon = (-73.7201), country_of = ''USA'', tz = ''America/New_York''\<rparr>),
      (''Saratoga'', \<lparr>lat = 43.0687, lon = (-73.7896), country_of = ''USA'', tz = ''America/New_York''\<rparr>),
      (''Pimlico'', \<lparr>lat = 39.3419, lon = (-76.6653), country_of = ''USA'', tz = ''America/New_York''\<rparr>)
     ]"

section \<open>The world outside the program\<close>

text \<open>
  A naive \<open>datetime\<close> is a point of the local time line, counted in microseconds;
  \<open>timedelta(hours=48)\<close> is then a number of microseconds and \<open>\<le>\<close> is the comparison
  of datetimes.
\<close>

type_synonym datetime = int

definition hours :: "int \<Rightarrow> int" where
  "hours n = n * 3600 * 1000000"

text \<open>
  The parameters of the request to the provider. \<open>for_datetime\<close> stands for the date range
  \<open>start_date\<close>, \<open>end_date\<close>, both computed from the race datetime.
\<close>

record request =
  latitude :: real
  longitude :: real
  temperature_unit :: string
  wind_speed_unit :: string
  precipitation_unit :: string
  timezone :: string
  for_datetime :: datetime

text \<open>
  What \<open>requests.get\<close> followed by \<open>response.json()\<close> gives: an exception (timeout,
  connection error), or a status code with the \<open>hourly\<close> object of the body
  (\<open>data.get('hourly', {})\<close>; \<open>None\<close> when decoding the body raises).
\<close>

datatype http_result = Raised | Response nat "hourly_data option"

text \<open>
  Everything the program takes from outside: the clock (\<open>clock env n\<close> is what the
  \<open>n\<close>-th reading of the world returns for \<open>datetime.now()\<close>), the provider, and the
  functions of Python's \<open>datetime\<close> library the source calls:
  \<open>strftime('%Y-%m-%dT%H:00')\<close>, \<open>strftime('%Y-%m-%d')\<close>, \<open>isoformat()\<close>, \<open>.hour\<close> and
  \<open>datetime.fromisoformat\<close> (\<open>None\<close> when it raises \<open>ValueError\<close>).
\<close>

record env =
  clock :: "nat \<Rightarrow> datetime"
  requests_get :: "nat \<Rightarrow> request \<Rightarrow> http_result"
  strftime_hour :: "datetime \<Rightarrow> string"
  strftime_date :: "datetime \<Rightarrow> string"
  isoformat :: "datetime \<Rightarrow> string"
  hour_of :: "datetime \<Rightarrow> int"
  fromisoformat :: "string \<Rightarrow> datetime option"

section \<open>The SQLite tables\<close>

text \<open>A value bound to a statement: \<open>None\<close>, a number, a string or a boolean.\<close>

datatype pyval = PNone | PNum real | PStr string | PBool bool

definition py_reading :: "reading \<Rightarrow> pyval" where
  "py_reading r = (case r of None \<Rightarrow> PNone | Some x \<Rightarrow> PNum x)"

text \<open>
  A row gives a value to each named column. A table is its rows, in insertion order,
  and the largest \<open>id\<close> handed out so far (\<open>AUTOINCREMENT\<close>).
\<close>

type_synonym row = "(string \<times> pyval) list"

record table =
  rows :: "row list"
  last_id :: nat

text \<open>The value of a column of a row; \<open>NULL\<close> when the statement names no such column.\<close>

definition column :: "row \<Rightarrow> string \<Rightarrow> pyval" where
  "column r c = (case map_of r c of None \<Rightarrow> PNone | Some v \<Rightarrow> v)"

text \<open>\<open>NOT NULL\<close> on the columns \<open>cs\<close>.\<close>

definition not_null_ok :: "string list \<Rightarrow> row \<Rightarrow> bool" where
  "not_null_ok cs r = list_all (\<lambda>c. column r c \<noteq> PNone) cs"

text \<open>Two rows collide on \<open>UNIQUE(key)\<close>: equal and non-null on every key column.\<close>

definition same_key :: "string list \<Rightarrow> row \<Rightarrow> row \<Rightarrow> bool" where
  "same_key key r r' = list_all (\<lambda>c. column r c \<noteq> PNone \<and> column r c = column r' c) key"

text \<open>The row a statement inserts: the fresh \<open>id\<close> and the named columns with their values.\<close>

definition new_row :: "nat \<Rightarrow> string list \<Rightarrow> pyval list \<Rightarrow> row" where
  "new_row n cols vals = (''id'', PNum (real n)) # zip cols vals"


text \<open>
  \<open>INSERT OR REPLACE INTO t (cols) VALUES (vals)\<close> on a table with \<open>UNIQUE(key)\<close>: the rows
  that collide with the new one are deleted, then the new row is inserted.
\<close>

definition insert_or_replace_into ::
  "string list \<Rightarrow> string list \<Rightarrow> table \<Rightarrow> string list \<Rightarrow> pyval list \<Rightarrow> table option" where
  "insert_or_replace_into key not_null t cols vals =
     (let r = new_row (last_id t + 1) cols vals in
      if length cols \<noteq> length vals then None
      else if \<not> not_null_ok not_null r then None
      else Some \<lparr>rows = filter (\<lambda>r'. \<not> same_key key r' r) (rows t) @ [r],
                  last_id = last_id t + 1\<rparr>)"

text \<open>The weather columns shared by both tables, and the values bound to them.\<close>

definition weather_columns :: "string list" where
  "weather_columns =
     [
      ''temperature'', ''apparent_temperature'', ''precipitation_current'',
      ''rain_current'', ''wind_speed'', ''wind_direction'',
      ''wind_gusts'', ''humidity'', ''dew_point'',
      ''pressure'', ''cloud_cover'', ''visibility'',
      ''weather_code'', ''precipitation_probability'', ''soil_moisture_0_1cm'',
      ''soil_moisture_1_3cm'', ''soil_moisture_3_9cm'', ''soil_temperature_0cm'',
      ''soil_temperature_6cm'', ''evapotranspiration'', ''rainfall_1h'',
      ''rainfall_3h'', ''rainfall_6h'', ''rainfall_24h'',
      ''rainfall_7d'', ''ground_saturation_index'', ''net_moisture_24h'',
      ''hours_since_rain'', ''predicted_going'', ''track_drying'',
      ''track_wetting'', ''weather_data_quality'', ''weather_fetched_at'',
      ''temperature_unit'', ''wind_speed_unit''
     ]"

definition weather_values :: "weather \<Rightarrow> pyval list" where
  "weather_values w =
     [
      py_reading (temperature w), py_reading (apparent_temperature w),
      py_reading (precipitation_current w), py_reading (rain_current w),
      py_reading (wind_speed w), py_reading (wind_direction w),
      py_reading (wind_gusts w), py_reading (humidity w),
      py_reading (dew_point w), py_reading (pressure w),
      py_reading (cloud_cover w), py_reading (visibility w),
      py_reading (weather_code w), py_reading (precipitation_probability w),
      py_reading (soil_moisture_0_1cm w), py_reading (soil_moisture_1_3cm w),
      py_reading (soil_moisture_3_9cm w), py_reading (soil_temperature_0cm w),
      py_reading (soil_temperature_6cm w), py_reading (evapotranspiration w),
      py_reading (rainfall_1h w), PNum (rainfall_3h w),
      PNum (rainfall_6h w), PNum (rainfall_24h w),
      PNum (rainfall_7d w), PNum (ground_saturation_index w),
      PNum (net_moisture_24h w), PNum (real (hours_since_rain w)),
      PStr (predicted_going w), PBool (track_drying w),
      PBool (track_wetting w), PStr (data_quality w),
      PStr (fetched_at w), PStr (temp_unit w),
      PStr (wind_unit w)
     ]"

text \<open>The state of a run: the number of readings of the world so far, and the table.\<close>

record world =
  ticks :: nat
  db :: table

definition tick :: "world \<Rightarrow> world" where
  "tick w = w\<lparr>ticks := ticks w + 1\<rparr>"

section \<open>get_comprehensive_weather (weather.py)\<close>

text \<open>
  The whole function. It returns \<open>None\<close> for a venue without coordinates, when the request
  raises or is answered with a status other than 200, when the body cannot be read, when
  the race hour is not in the time list, and when the derivation raises. The request
  reads the world once; a returned record reads the clock once more, for \<open>fetched_at\<close>.
\<close>

definition get_comprehensive_weather ::
  "env \<Rightarrow> world \<Rightarrow> string \<Rightarrow> datetime \<Rightarrow> world \<times> weather option" where
  "get_comprehensive_weather env w v race_dt =
     (case map_of VENUE_COORDS v of
        None \<Rightarrow> (w, None)
      | Some cs \<Rightarrow>
          let c = country_of cs;
              units = (if c = ''USA'' then (''fahrenheit'', ''mph'', ''inch'')
                       else (''celsius'', ''ms'', ''mm''));
              params = \<lparr>latitude = lat cs, longitude = lon cs,
                        temperature_unit = fst units, wind_speed_unit = fst (snd units),
                        precipitation_unit = snd (snd units), timezone = tz cs,
                        for_datetime = race_dt\<rparr>;
              w1 = tick w
          in case requests_get env (ticks w) params of
               Raised \<Rightarrow> (w1, None)
             | Response status body \<Rightarrow>
                 if status \<noteq> 200 then (w1, None)
                 else (case body of
                         None \<Rightarrow> (w1, None)
                       | Some hourly \<Rightarrow>
                           (case index_of (hourly_time hourly) (strftime_hour env race_dt) of
                              None \<Rightarrow> (w1, None)
                            | Some idx \<Rightarrow>
                                (case weather_at v c (isoformat env race_dt)
                                        (isoformat env (clock env (ticks w1))) hourly idx of
                                   None \<Rightarrow> (w1, None)
                                 | Some result \<Rightarrow> (tick w1, Some result)))))"

section \<open>The periodic collector (collect_daily_weather.py)\<close>

text \<open>The dictionary \<open>collect_venue_weather\<close> returns and \<open>save_to_database\<close> stores.\<close>

record venue_data =
  vd_venue :: string
  vd_country :: string
  vd_weather :: weather

text \<open>
  The table \<open>venue_daily_weather\<close> (lines 40 to 98): the columns the \<open>INSERT\<close> names, the
  columns declared \<open>NOT NULL\<close> and the columns of its \<open>UNIQUE\<close> constraint.
\<close>

definition daily_columns :: "string list" where
  "daily_columns =
     [''venue'', ''country'', ''collection_date'', ''collection_hour'',
      ''collection_timestamp''] @ weather_columns"

definition daily_not_null :: "string list" where
  "daily_not_null =
     [''venue'', ''country'', ''collection_date'', ''collection_hour'',
      ''collection_timestamp'', ''weather_fetched_at'']"

definition daily_unique :: "string list" where
  "daily_unique = [''venue'', ''collection_date'', ''collection_hour'']"

text \<open>The natural key of a row of the periodic table.\<close>

definition daily_key :: "row \<Rightarrow> pyval \<times> pyval \<times> pyval" where
  "daily_key r = (column r ''venue'', column r ''collection_date'', column r ''collection_hour'')"

text \<open>The tuple of values bound by \<open>save_to_database\<close> when the clock reads \<open>now\<close>.\<close>

definition daily_values :: "env \<Rightarrow> datetime \<Rightarrow> venue_data \<Rightarrow> pyval list" where
  "daily_values env now vd =
     [PStr (vd_venue vd), PStr (vd_country vd), PStr (strftime_date env now),
      PNum (real_of_int (hour_of env now)), PStr (isoformat env now)]
     @ weather_values (vd_weather vd)"

text \<open>
  \<open>collect_venue_weather\<close> (lines 120 to 150): the weather at the current time of the clock.
  The summary it prints formats numbers that every returned record holds, so the
  \<open>except\<close> branch adds no outcome to the two below.
\<close>

definition collect_venue_weather ::
  "env \<Rightarrow> world \<Rightarrow> string \<Rightarrow> coords \<Rightarrow> world \<times> venue_data option" where
  "collect_venue_weather env w v cs =
     (let now = clock env (ticks w);
          (w1, weather) = get_comprehensive_weather env (tick w) v now
      in case weather of
           None \<Rightarrow> (w1, None)
         | Some wt \<Rightarrow> (w1, Some \<lparr>vd_venue = v, vd_country = country_of cs, vd_weather = wt\<rparr>))"

text \<open>
  \<open>save_to_database\<close> (lines 152 to 226): \<open>False\<close> without data; otherwise the row is written
  under the date and hour of the clock, and an exception of the statement is rolled back
  and reported as \<open>False\<close>.
\<close>

definition save_to_database :: "env \<Rightarrow> world \<Rightarrow> venue_data option \<Rightarrow> world \<times> bool" where
  "save_to_database env w venue_data =
     (case venue_data of
        None \<Rightarrow> (w, False)
      | Some vd \<Rightarrow>
          let now = clock env (ticks w);
              w1 = tick w
          in case insert_or_replace_into daily_unique daily_not_null (db w1)
                    daily_columns (daily_values env now vd) of
               None \<Rightarrow> (w1, False)
             | Some t \<Rightarrow> (w1\<lparr>db := t\<rparr>, True))"

text \<open>One iteration of the loop of \<open>run_collection\<close> (lines 250 to 256).\<close>

definition daily_step ::
  "env \<Rightarrow> world \<times> nat \<times> nat \<Rightarrow> string \<times> coords \<Rightarrow> world \<times> nat \<times> nat" where
  "daily_step env st e =
     (case st of (w, success_count, fail_count) \<Rightarrow>
      case collect_venue_weather env w (fst e) (snd e) of
        (w1, None) \<Rightarrow> (w1, success_count, fail_count + 1)
      | (w1, Some vd) \<Rightarrow>
          (case save_to_database env w1 (Some vd) of
             (w2, True) \<Rightarrow> (w2, success_count + 1, fail_count)
           | (w2, False) \<Rightarrow> (w2, success_count, fail_count + 1)))"

text \<open>The loop over the venues, threading the world and the two counters.\<close>

fun daily_loop ::
  "env \<Rightarrow> (string \<times> coords) list \<Rightarrow> world \<times> nat \<times> nat \<Rightarrow> world \<times> nat \<times> nat" where
  "daily_loop env [] st = st"
| "daily_loop env (e # es) st = daily_loop env es (daily_step env st e)"

text \<open>The venues of a run: three of them in test mode, the whole catalog otherwise.\<close>

definition venues_to_collect :: "bool \<Rightarrow> (string \<times> coords) list" where
  "venues_to_collect test_mode =
     (if test_mode
      then filter (\<lambda>(k, v). k \<in> set [''Newbury'', ''Cheltenham'', ''Churchill Downs''])
             VENUE_COORDS
      else VENUE_COORDS)"

text \<open>
  \<open>run_collection\<close> returns \<open>(success_count, fail_count)\<close>. The two \<open>datetime.now()\<close> of the
  banner and of the summary read the clock too.
\<close>

definition daily_run_collection :: "env \<Rightarrow> world \<Rightarrow> bool \<Rightarrow> world \<times> nat \<times> nat" where
  "daily_run_collection env w test_mode =
     (case daily_loop env (venues_to_collect test_mode) (tick w, 0, 0) of
        (w1, success_count, fail_count) \<Rightarrow> (tick w1, success_count, fail_count))"

section \<open>The race-linked collector (weather_collector.py)\<close>
















section \<open>Sample data\<close>



text \<open>
  An environment for concrete runs: the given clock and provider, and the calendar
  functions tabulated on the few datetimes the runs use (20 October 2025, counted from
  midnight).
\<close>

definition sample_env :: "(nat \<Rightarrow> datetime) \<Rightarrow> (nat \<Rightarrow> request \<Rightarrow> http_result) \<Rightarrow> env" where
  "sample_env clk provider =
     \<lparr>clock = clk,
      requests_get = provider,
      strftime_hour = (\<lambda>t. if t div hours 1 = 10 then ''2025-10-20T10:00''
                           else ''2025-10-20T14:00''),
      strftime_date = (\<lambda>t. ''2025-10-20''),
      isoformat = (\<lambda>t. if t = hours 10 then ''2025-10-20T10:00:00''
                       else if t = hours 10 + 1 then ''2025-10-20T10:00:00.000001''
                       else ''2025-10-20T10:00:00.000002''),
      hour_of = (\<lambda>t. t div hours 1),
      fromisoformat = (\<lambda>s. if s = ''2025-10-20T14:30:00'' then Some (hours 14 + hours 1 div 2)
                           else if s = ''2025-10-25T14:30:00'' then Some (hours 134 + hours 1 div 2)
                           else None)\<rparr>"

text \<open>
  A complete response covering 10:00 to 14:00 of that day, and a provider that answers
  with it for Newbury's latitude and fails for every other request.
\<close>

definition sample_hourly :: hourly_data where
  "sample_hourly =
     \<lparr>hourly_time = [''2025-10-20T10:00'', ''2025-10-20T11:00'', ''2025-10-20T12:00'',
                     ''2025-10-20T13:00'', ''2025-10-20T14:00''],
      series = (\<lambda>k. if k = ''precipitation''
                    then Some [Some 0, Some 0, Some 2, Some 0, Some 0]
                    else Some [Some 0.3, Some 0.3, Some 0.2, Some 0.2, Some 0.2])\<rparr>"

definition sample_provider :: "nat \<Rightarrow> request \<Rightarrow> http_result" where
  "sample_provider n q =
     (if latitude q = 51.4008 then Response 200 (Some sample_hourly) else Raised)"

section \<open>Facts about the Python operations\<close>

lemma py_sum_foldl_None:
  "foldl (\<lambda>acc x. do { a \<leftarrow> acc; v \<leftarrow> x; Some (a + v) }) None xs = (None :: real option)"
  by (induction xs) simp_all

lemma py_sum_foldl_Some:
  "foldl (\<lambda>acc x. do { a \<leftarrow> acc; v \<leftarrow> x; Some (a + v) }) (Some (s::real)) xs =
     (if None \<in> set xs then None else Some (s + sum_list (map the xs)))"
proof (induction xs arbitrary: s)
  case Nil
  show ?case by simp
next
  case (Cons x xs)
  show ?case
  proof (cases x)
    case None
    then show ?thesis by (simp add: py_sum_foldl_None)
  next
    case (Some v)
    then show ?thesis using Cons.IH [of "s + v"] by (auto simp: algebra_simps)
  qed
qed

lemma py_sum_eq:
  "py_sum xs = (if None \<in> set xs then None else Some (sum_list (map the xs)))"
  unfolding py_sum_def by (simp add: py_sum_foldl_Some)

section \<open>Reading the fields of a derived record\<close>

lemma weather_at_fields:
  assumes "weather_at v c ri ni h idx = Some w"
  shows "(if idx > 0 then hourly_at h ''precipitation'' idx else Some (Some 0)) = Some (rainfall_1h w)"
    and "rainfall_window h idx 3 = Some (rainfall_3h w)"
    and "rainfall_window h idx 6 = Some (rainfall_6h w)"
    and "rainfall_window h idx 24 = Some (rainfall_24h w)"
    and "(if idx > 0 then hourly_sum h ''precipitation'' 0 idx else Some 0) = Some (rainfall_7d w)"
    and "hours_since_rain_loop h idx 0 = Some (hours_since_rain w)"
    and "\<exists>s. hourly_num h ''soil_moisture_0_to_1cm'' idx = Some s \<and> predicted_going w = going_label s
           \<and> track_trend h idx s = Some (track_drying w, track_wetting w)"
    and "hourly_at h ''precipitation'' idx = Some (precipitation_current w)"
    and "hourly_at h ''soil_moisture_0_to_1cm'' idx = Some (soil_moisture_0_1cm w)"
  using assms unfolding weather_at_def by (auto simp: bind_eq_Some_conv)

lemma hourly_at_Some_iff:
  "hourly_at h k i = Some r \<longleftrightarrow> (\<exists>xs. series h k = Some xs \<and> i < length xs \<and> r = xs ! i)"
  by (auto simp: hourly_at_def py_index_def bind_eq_Some_conv)

lemma hourly_num_Some_iff:
  "hourly_num h k i = Some x \<longleftrightarrow> (\<exists>xs. series h k = Some xs \<and> i < length xs \<and> xs ! i = Some x)"
  by (auto simp: hourly_num_def hourly_at_Some_iff bind_eq_Some_conv)

lemma sum_list_window:
  fixes f :: "'a \<Rightarrow> real"
  assumes "a + n \<le> length xs"
  shows "sum_list (map f (take n (drop a xs))) = (\<Sum>i = a..<a + n. f (xs ! i))"
proof -
  have len: "length (take n (drop a xs)) = n" using assms by simp
  have "sum_list (map f (take n (drop a xs))) = (\<Sum>i = 0..<n. f (take n (drop a xs) ! i))"
    using len by (simp add: sum_list_sum_nth)
  also have "\<dots> = (\<Sum>i = 0..<n. f (xs ! (a + i)))"
    using assms by (intro sum.cong) auto
  also have "\<dots> = (\<Sum>i = a..<a + n. f (xs ! i))"
    using sum.shift_bounds_nat_ivl [of "\<lambda>i. f (xs ! i)" 0 a n] by (simp add: add.commute)
  finally show ?thesis .
qed

lemma hourly_sum_Some:
  assumes "hourly_sum h k a b = Some s" and "series h k = Some xs"
    and "a \<le> b" and "b \<le> length xs"
  shows "s = (\<Sum>i = a..<b. the (xs ! i))" and "\<forall>i. a \<le> i \<and> i < b \<longrightarrow> xs ! i \<noteq> None"
proof -
  from assms have ps: "py_sum (py_slice xs a b) = Some s"
    by (simp add: hourly_sum_def)
  then have nn: "None \<notin> set (take (b - a) (drop a xs))"
    and s: "s = sum_list (map the (take (b - a) (drop a xs)))"
    by (auto simp: py_sum_eq py_slice_def split: if_splits)
  from s assms show "s = (\<Sum>i = a..<b. the (xs ! i))"
    using sum_list_window [of a "b - a" xs the] by simp
  show "\<forall>i. a \<le> i \<and> i < b \<longrightarrow> xs ! i \<noteq> None"
  proof (intro allI impI)
    fix i assume "a \<le> i \<and> i < b"
    then have i: "a + (i - a) = i" "i - a < b - a" "i < b" by auto
    then have "take (b - a) (drop a xs) ! (i - a) = xs ! i" using assms by simp
    moreover have "i - a < length (take (b - a) (drop a xs))" using i assms by simp
    ultimately have "xs ! i \<in> set (take (b - a) (drop a xs))"
      by (metis nth_mem)
    with nn show "xs ! i \<noteq> None" by metis
  qed
qed

lemma rainfall_window_Some:
  assumes "rainfall_window h idx n = Some s" and "series h ''precipitation'' = Some xs"
    and "idx \<le> length xs"
  shows "s = (if idx \<ge> n then (\<Sum>i = idx - n..<idx. the (xs ! i)) else 0)"
proof (cases "idx \<ge> n")
  case True
  then have a: "nat (max 0 (int idx - int n)) = idx - n" by arith
  from assms True have "hourly_sum h ''precipitation'' (idx - n) idx = Some s"
    unfolding rainfall_window_def a by simp
  from hourly_sum_Some(1) [OF this assms(2) _ assms(3)] True show ?thesis by simp
next
  case False
  with assms show ?thesis by (simp add: rainfall_window_def)
qed

lemma loop_length:
  assumes "series h ''precipitation'' = Some xs" and "k \<le> length xs"
    and "\<forall>i<k. xs ! i \<noteq> None"
  shows "hours_since_rain_loop h k c =
           Some (c + length (takeWhile (\<lambda>p. the p \<le> 0.1) (rev (take k xs))))"
  using assms(2,3)
proof (induction k arbitrary: c)
  case 0
  show ?case by simp
next
  case (Suc k)
  then have lt: "k < length xs" and nn: "xs ! k \<noteq> None" by auto
  then obtain p where p: "xs ! k = Some p" by auto
  have num: "hourly_num h ''precipitation'' k = Some p"
    using assms(1) lt p by (simp add: hourly_num_Some_iff)
  have tk: "rev (take (Suc k) xs) = xs ! k # rev (take k xs)"
    using lt by (simp add: take_Suc_conv_app_nth)
  have IH: "hours_since_rain_loop h k (c + 1) =
      Some (c + 1 + length (takeWhile (\<lambda>p. the p \<le> 0.1) (rev (take k xs))))"
    using Suc by (intro Suc.IH) auto
  show ?case using num IH by (simp add: tk p not_less)
qed

section \<open>The derivation returns a record on a complete response\<close>

lemma complete_uptoD:
  assumes "complete_upto h idx" and "k \<in> set hourly_fields"
  obtains xs where "series h k = Some xs" and "idx < length xs"
    and "\<forall>i\<le>idx. xs ! i \<noteq> None"
proof -
  from assms obtain xs where xs: "series h k = Some xs" "idx < length xs"
      "None \<notin> set (take (Suc idx) xs)"
    unfolding complete_upto_def by (auto split: option.splits)
  have "\<forall>i\<le>idx. xs ! i \<noteq> None"
  proof (intro allI impI)
    fix i assume "i \<le> idx"
    then have "i < length (take (Suc idx) xs)" and "take (Suc idx) xs ! i = xs ! i"
      using xs(2) by auto
    then have "xs ! i \<in> set (take (Suc idx) xs)" by (metis nth_mem)
    with xs(3) show "xs ! i \<noteq> None" by metis
  qed
  with xs that show ?thesis by blast
qed

lemma complete_hourly_at:
  assumes "complete_upto h idx" and "k \<in> set hourly_fields" and "i \<le> idx"
  shows "\<exists>x. hourly_at h k i = Some (Some x) \<and> hourly_num h k i = Some x"
proof -
  from complete_uptoD [OF assms(1,2)] obtain xs where xs: "series h k = Some xs" "idx < length xs"
    "\<forall>i\<le>idx. xs ! i \<noteq> None" by blast
  with assms(3) obtain x where "xs ! i = Some x" "i < length xs" by auto
  with xs show ?thesis by (auto simp: hourly_at_Some_iff hourly_num_Some_iff)
qed

lemma complete_hourly_sum:
  assumes "complete_upto h idx" and "a \<le> idx"
  shows "\<exists>s. hourly_sum h ''precipitation'' a idx = Some s"
proof -
  have "''precipitation'' \<in> set hourly_fields" by (simp add: hourly_fields_def)
  from complete_uptoD [OF assms(1) this] obtain xs where xs: "series h ''precipitation'' = Some xs"
    "idx < length xs" "\<forall>i\<le>idx. xs ! i \<noteq> None" by blast
  have "None \<notin> set (py_slice xs a idx)"
  proof
    assume "None \<in> set (py_slice xs a idx)"
    then obtain j where j: "j < length (py_slice xs a idx)" "py_slice xs a idx ! j = None"
      by (metis in_set_conv_nth)
    then have "j < idx - a" by (simp add: py_slice_def)
    then have "py_slice xs a idx ! j = xs ! (a + j)" "a + j \<le> idx"
      using xs(2) by (auto simp: py_slice_def)
    with j xs(3) show False by auto
  qed
  then show ?thesis using xs(1) by (simp add: hourly_sum_def py_sum_eq)
qed

lemma complete_loop:
  assumes "complete_upto h idx"
  shows "\<exists>n. hours_since_rain_loop h idx 0 = Some n"
proof -
  have "''precipitation'' \<in> set hourly_fields" by (simp add: hourly_fields_def)
  from complete_uptoD [OF assms(1) this] obtain xs where xs: "series h ''precipitation'' = Some xs"
    "idx < length xs" "\<forall>i\<le>idx. xs ! i \<noteq> None" by blast
  then show ?thesis using loop_length [of h xs idx 0] by auto
qed

lemma weather_at_complete:
  assumes "complete_upto h idx"
  shows "\<exists>w. weather_at v c ri ni h idx = Some w"
proof -
  note hf = hourly_fields_def
  have win: "\<exists>s. rainfall_window h idx n = Some s" for n
    using complete_hourly_sum [OF assms, of "nat (max 0 (int idx - int n))"]
    by (auto simp: rainfall_window_def)
  obtain r3 r6 r24 where r: "rainfall_window h idx 3 = Some r3" "rainfall_window h idx 6 = Some r6"
    "rainfall_window h idx 24 = Some r24" using win by metis
  obtain r7 where r7: "hourly_sum h ''precipitation'' 0 idx = Some r7"
    using complete_hourly_sum [OF assms, of 0] by auto
  obtain n where n: "hours_since_rain_loop h idx 0 = Some n" using complete_loop [OF assms] by auto
  define X where "X = (\<lambda>k. the (hourly_num h k idx))"
  have at: "hourly_at h k idx = Some (Some (X k))" "hourly_num h k idx = Some (X k)"
    if "k \<in> set hourly_fields" for k
    using complete_hourly_at [OF assms that, of idx] by (auto simp: X_def)
  have "\<exists>t. track_trend h idx s = Some t" for s
    using complete_hourly_at [OF assms, of "''soil_moisture_0_to_1cm''" "idx - 3"]
    by (auto simp: track_trend_def hf)
  then obtain t where t: "track_trend h idx (X ''soil_moisture_0_to_1cm'') = Some t"
    by blast
  have mem: "''temperature_2m'' \<in> set hourly_fields"
    "''apparent_temperature'' \<in> set hourly_fields"
    "''precipitation'' \<in> set hourly_fields"
    "''rain'' \<in> set hourly_fields"
    "''wind_speed_10m'' \<in> set hourly_fields"
    "''wind_direction_10m'' \<in> set hourly_fields"
    "''wind_gusts_10m'' \<in> set hourly_fields"
    "''relative_humidity_2m'' \<in> set hourly_fields"
    "''dew_point_2m'' \<in> set hourly_fields"
    "''soil_moisture_0_to_1cm'' \<in> set hourly_fields"
    "''soil_moisture_1_to_3cm'' \<in> set hourly_fields"
    "''soil_moisture_3_to_9cm'' \<in> set hourly_fields"
    "''soil_temperature_0cm'' \<in> set hourly_fields"
    "''soil_temperature_6cm'' \<in> set hourly_fields"
    "''et0_fao_evapotranspiration'' \<in> set hourly_fields"
    "''pressure_msl'' \<in> set hourly_fields"
    "''cloud_cover'' \<in> set hourly_fields"
    "''visibility'' \<in> set hourly_fields"
    "''weather_code'' \<in> set hourly_fields"
    "''precipitation_probability'' \<in> set hourly_fields"
    by (simp_all add: hf)
  note eqs = mem [THEN at(1)] mem [THEN at(2)]
  show ?thesis
    unfolding weather_at_def by (simp add: eqs r r7 n t)
qed

lemma weather_at_precip:
  assumes "weather_at v c ri ni h idx = Some w" and "series h ''precipitation'' = Some xs"
  shows "idx < length xs" and "precipitation_current w = xs ! idx"
    and "\<forall>i<idx. xs ! i \<noteq> None"
proof -
  from weather_at_fields(8) [OF assms(1)] assms(2)
  show len: "idx < length xs" and "precipitation_current w = xs ! idx"
    by (auto simp: hourly_at_Some_iff)
  show "\<forall>i<idx. xs ! i \<noteq> None"
  proof (cases "idx > 0")
    case True
    with weather_at_fields(5) [OF assms(1)]
    have "hourly_sum h ''precipitation'' 0 idx = Some (rainfall_7d w)" by simp
    from hourly_sum_Some(2) [OF this assms(2)] len show ?thesis by simp
  next
    case False
    then show ?thesis by simp
  qed
qed

lemma weather_at_surface:
  assumes "weather_at v c ri ni h idx = Some w" and "series h ''soil_moisture_0_to_1cm'' = Some sm"
  shows "idx < length sm" and "\<exists>s. sm ! idx = Some s \<and> predicted_going w = going_label s
           \<and> track_trend h idx s = Some (track_drying w, track_wetting w)"
  using weather_at_fields(7) [OF assms(1)] assms(2)
  by (auto simp: hourly_num_Some_iff)

lemma sample_complete:
  "complete_upto \<lparr>hourly_time = ts, series = (\<lambda>k. if k = ''precipitation''
       then Some [Some 0, Some 0, Some 2, Some 0, Some 0]
       else Some [Some 0.3, Some 0.3, Some 0.2, Some 0.2, Some 0.2])\<rparr> 4"
  by (simp add: complete_upto_def)

lemma dry_complete:
  "complete_upto \<lparr>hourly_time = ts, series = (\<lambda>k. if k = ''precipitation''
       then Some [Some 0, Some 0, Some 0, Some 0, Some 0]
       else Some [Some 0.3, Some 0.3, Some 0.2, Some 0.2, Some 0.2])\<rparr> 4"
  by (simp add: complete_upto_def)

lemma sample_complete_0:
  "complete_upto \<lparr>hourly_time = ts, series = (\<lambda>k. if k = ''precipitation''
       then Some [Some 0, Some 0, Some 2, Some 0, Some 0]
       else Some [Some 0.3, Some 0.3, Some 0.2, Some 0.2, Some 0.2])\<rparr> 0"
  by (simp add: complete_upto_def)


section \<open>Facts about the tables\<close>

lemma length_weather: "length weather_columns = 35" "length (weather_values w) = 35"
  by (simp_all add: weather_columns_def weather_values_def)

lemma distinct_weather_columns: "distinct weather_columns"
  by (simp add: weather_columns_def)



lemma length_daily: "length (daily_values env now vd) = length daily_columns"
  by (simp add: daily_values_def daily_columns_def length_weather)




lemma daily_not_null_ok:
  "not_null_ok daily_not_null (new_row n daily_columns (daily_values env now vd))"
  by (simp add: not_null_ok_def daily_not_null_def column_def new_row_def daily_columns_def
      daily_values_def weather_columns_def weather_values_def)


lemma daily_key_new_row:
  "daily_key (new_row n daily_columns (daily_values env now vd))
     = (PStr (vd_venue vd), PStr (strftime_date env now), PNum (real_of_int (hour_of env now)))"
  by (simp add: daily_key_def column_def new_row_def daily_columns_def daily_values_def)


lemma same_key_daily:
  "same_key daily_unique r (new_row n daily_columns (daily_values env now vd))
     \<longleftrightarrow> daily_key r = daily_key (new_row n daily_columns (daily_values env now vd))"
  unfolding daily_key_new_row
  by (auto simp: same_key_def daily_unique_def daily_key_def column_def new_row_def
      daily_columns_def daily_values_def)

lemma save_to_database_eq:
  "save_to_database env w (Some vd) =
     (\<lparr>ticks = ticks w + 1,
       db = \<lparr>rows = filter (\<lambda>r. daily_key r \<noteq>
                  (PStr (vd_venue vd), PStr (strftime_date env (clock env (ticks w))),
                   PNum (real_of_int (hour_of env (clock env (ticks w)))))) (rows (db w))
               @ [new_row (last_id (db w) + 1) daily_columns
                    (daily_values env (clock env (ticks w)) vd)],
             last_id = last_id (db w) + 1\<rparr>\<rparr>, True)"
  by (simp add: save_to_database_def insert_or_replace_into_def Let_def tick_def
      length_daily daily_not_null_ok same_key_daily daily_key_new_row)


section \<open>Facts about the two collection loops\<close>


















section \<open>Facts about get_comprehensive_weather and the sample run\<close>

lemma index_of_Some:
  "index_of xs x = Some i \<Longrightarrow> i < length xs \<and> xs ! i = x \<and> (\<forall>j<i. xs ! j \<noteq> x)"
proof (induction xs arbitrary: i)
  case Nil
  then show ?case by simp
next
  case (Cons y ys)
  show ?case
  proof (cases "y = x")
    case True
    with Cons.prems show ?thesis by simp
  next
    case False
    with Cons.prems obtain k where k: "index_of ys x = Some k" "i = Suc k" by auto
    from Cons.IH [OF k(1)] False k(2) show ?thesis
      by (auto simp: nth_Cons split: nat.splits)
  qed
qed

lemma index_of_None: "index_of xs x = None \<longleftrightarrow> x \<notin> set xs"
  by (induction xs) auto

lemma get_comprehensive_weather_SomeD:
  assumes "get_comprehensive_weather env w v dt = (w', Some wt)"
  shows "\<exists>cs q h idx. map_of VENUE_COORDS v = Some cs
           \<and> requests_get env (ticks w) q = Response 200 (Some h)
           \<and> index_of (hourly_time h) (strftime_hour env dt) = Some idx
           \<and> weather_at v (country_of cs) (isoformat env dt)
                (isoformat env (clock env (Suc (ticks w)))) h idx = Some wt
           \<and> w' = tick (tick w)"
  using assms
  by (auto simp: get_comprehensive_weather_def Let_def tick_def
      split: option.splits http_result.splits if_splits)

lemma get_comprehensive_weather_complete:
  assumes "map_of VENUE_COORDS v = Some cs"
    and "\<And>q. latitude q = lat cs \<Longrightarrow> requests_get env (ticks w) q = Response 200 (Some h)"
    and "index_of (hourly_time h) (strftime_hour env dt) = Some idx"
    and "complete_upto h idx"
  shows "\<exists>wt. get_comprehensive_weather env w v dt = (tick (tick w), Some wt)"
proof -
  let ?c = "country_of cs"
  obtain wt where "weather_at v ?c (isoformat env dt)
      (isoformat env (clock env (ticks (tick w)))) h idx = Some wt"
    using weather_at_complete [OF assms(4)] by blast
  then show ?thesis
    using assms(1,3) by (simp add: get_comprehensive_weather_def Let_def assms(2))
qed

lemma sample_hourly_index:
  "\<exists>idx. index_of (hourly_time sample_hourly) (strftime_hour (sample_env clk p) t) = Some idx
          \<and> complete_upto sample_hourly idx"
proof (cases "t div hours 1 = 10")
  case True
  then have "index_of (hourly_time sample_hourly) (strftime_hour (sample_env clk p) t) = Some 0"
    by (simp add: sample_env_def sample_hourly_def)
  moreover have "complete_upto sample_hourly 0"
    by (simp add: complete_upto_def sample_hourly_def)
  ultimately show ?thesis by blast
next
  case False
  then have "index_of (hourly_time sample_hourly) (strftime_hour (sample_env clk p) t) = Some 4"
    by (simp add: sample_env_def sample_hourly_def)
  moreover have "complete_upto sample_hourly 4"
    by (simp add: complete_upto_def sample_hourly_def)
  ultimately show ?thesis by blast
qed

lemma get_weather_no_answer:
  assumes "map_of VENUE_COORDS v = Some cs"
    and "\<And>q. latitude q = lat cs \<Longrightarrow> requests_get env (ticks w) q = Raised"
  shows "get_comprehensive_weather env w v dt = (tick w, None)"
  using assms(1) by (simp add: get_comprehensive_weather_def Let_def assms(2))

lemma sample_get_weather:
  assumes "map_of VENUE_COORDS v = Some cs"
  shows "\<exists>w' x. get_comprehensive_weather (sample_env clk sample_provider) w v dt = (w', x)
           \<and> (x \<noteq> None \<longleftrightarrow> lat cs = 51.4008)"
proof (cases "lat cs = 51.4008")
  case True
  obtain idx where "index_of (hourly_time sample_hourly)
      (strftime_hour (sample_env clk sample_provider) dt) = Some idx"
    and "complete_upto sample_hourly idx"
    using sample_hourly_index by blast
  from get_comprehensive_weather_complete [OF assms _ this, of w] True
  show ?thesis by (auto simp: sample_env_def sample_provider_def)
next
  case False
  from get_weather_no_answer [OF assms, of "sample_env clk sample_provider" w dt] False
  show ?thesis by (simp add: sample_env_def sample_provider_def)
qed

lemma sample_daily_step:
  assumes "map_of VENUE_COORDS v = Some cs"
  shows "\<exists>w'. daily_step (sample_env clk sample_provider) (w, s, f) (v, cs)
           = (w', if lat cs = 51.4008 then (s + 1, f) else (s, f + 1))"
proof -
  let ?E = "sample_env clk sample_provider"
  from sample_get_weather [OF assms, of clk "tick w" "clock ?E (ticks w)"]
  obtain w1 x where g: "get_comprehensive_weather ?E (tick w) v (clock ?E (ticks w)) = (w1, x)"
    and x: "x \<noteq> None \<longleftrightarrow> lat cs = 51.4008" by blast
  show ?thesis
  proof (cases x)
    case None
    with g x show ?thesis by (simp add: daily_step_def collect_venue_weather_def Let_def)
  next
    case (Some wt)
    with g x show ?thesis
      by (simp add: daily_step_def collect_venue_weather_def Let_def save_to_database_eq)
  qed
qed


lemma test_venues:
  "venues_to_collect True =
     [(''Newbury'', \<lparr>lat = 51.4008, lon = - 1.3267, country_of = ''UK'',
                    tz = ''Europe/London''\<rparr>),
      (''Cheltenham'', \<lparr>lat = 51.9117, lon = - 2.0493, country_of = ''UK'',
                       tz = ''Europe/London''\<rparr>),
      (''Churchill Downs'', \<lparr>lat = 38.2048, lon = - 85.7702, country_of = ''USA'',
                            tz = ''America/New_York''\<rparr>)]"
  by (simp add: venues_to_collect_def VENUE_COORDS_def)

lemma sample_daily_run:
  "snd (daily_run_collection (sample_env clk sample_provider) w True) = (1, 2)"
proof -
  let ?E = "sample_env clk sample_provider"
  let ?n = "(''Newbury'', \<lparr>lat = 51.4008, lon = - 1.3267, country_of = ''UK'',
                    tz = ''Europe/London''\<rparr>)"
  let ?c = "(''Cheltenham'', \<lparr>lat = 51.9117, lon = - 2.0493, country_of = ''UK'',
                       tz = ''Europe/London''\<rparr>)"
  let ?d = "(''Churchill Downs'', \<lparr>lat = 38.2048, lon = - 85.7702, country_of = ''USA'',
                            tz = ''America/New_York''\<rparr>)"
  have m: "map_of VENUE_COORDS (fst ?n) = Some (snd ?n)"
    "map_of VENUE_COORDS (fst ?c) = Some (snd ?c)"
    "map_of VENUE_COORDS (fst ?d) = Some (snd ?d)"
    by (simp_all add: VENUE_COORDS_def)
  from sample_daily_step [OF m(1), of clk "tick w" 0 0]
  obtain w1 where 1: "daily_step ?E (tick w, 0, 0) ?n = (w1, 1, 0)" by auto
  from sample_daily_step [OF m(2), of clk w1 1 0]
  obtain w2 where 2: "daily_step ?E (w1, 1, 0) ?c = (w2, 1, 1)" by auto
  from sample_daily_step [OF m(3), of clk w2 1 1]
  obtain w3 where 3: "daily_step ?E (w2, 1, 1) ?d = (w3, 1, 2)" by auto
  have "daily_loop ?E [?n, ?c, ?d] (tick w, 0, 0) = (w3, 1, 2)"
    by (simp only: daily_loop.simps 1 2 3)
  then show ?thesis
    unfolding daily_run_collection_def test_venues by simp
qed


section \<open>Rainfall accumulations\<close>



text \<open>
  Claim C8. Whenever the derivation returns a record for reference index \<open>idx\<close>,
  \<open>rainfall_1h\<close> is the precipitation sample at \<open>idx\<close> itself when \<open>idx > 0\<close> and \<open>0\<close>
  when \<open>idx = 0\<close>: the current-hour reading, not a difference.
\<close>

theorem rainfall_1h_is_current_reading:
  assumes "weather_at v c race_iso now_iso hourly idx = Some w"
    and "series hourly ''precipitation'' = Some precip"
  shows "idx < length precip \<and> rainfall_1h w = (if idx > 0 then precip ! idx else Some 0)"
  using weather_at_fields(1) [OF assms(1)] weather_at_precip(1) [OF assms] assms(2)
  by (auto simp: hourly_at_Some_iff split: if_splits)

theorem rainfall_1h_is_current_reading_witness:
  "map_option rainfall_1h
     (weather_at ''Ascot'' ''UK'' ''2025-10-20T04:00:00'' ''2025-10-20T03:10:00''
        \<lparr>hourly_time = [], series = (\<lambda>k. if k = ''precipitation''
            then Some [Some 0, Some 0, Some 2, Some 0, Some 0]
            else Some [Some 0.3, Some 0.3, Some 0.2, Some 0.2, Some 0.2])\<rparr> 4)
   = Some (Some 0)"
proof -
  let ?H = "\<lparr>hourly_time = [], series = (\<lambda>k. if k = ''precipitation''
            then Some [Some 0, Some 0, Some 2, Some 0, Some (0::real)]
            else Some [Some 0.3, Some 0.3, Some 0.2, Some 0.2, Some 0.2])\<rparr>"
  obtain w where w: "weather_at ''Ascot'' ''UK'' ''2025-10-20T04:00:00'' ''2025-10-20T03:10:00'' ?H 4 = Some w"
    using weather_at_complete [OF sample_complete] by blast
  have p: "series ?H ''precipitation'' = Some [Some 0, Some 0, Some 2, Some 0, Some 0]" by simp
  from rainfall_1h_is_current_reading [OF w p] show ?thesis by (simp add: w)
qed

text \<open>
  Claim C4, as stated, says that a rainfall accumulation is zero exactly when the
  reference index is below the window size. A dry window refutes it: with an all-zero
  precipitation series and index \<open>4\<close>, \<open>rainfall_3h\<close> is \<open>0\<close> although \<open>4 \<ge> 3\<close>.
\<close>
theorem rainfall_zero_iff_clipped_counterexample:
  "\<not> (map_option rainfall_3h
        (weather_at ''Ascot'' ''UK'' ''2025-10-20T04:00:00'' ''2025-10-20T03:10:00''
           \<lparr>hourly_time = [], series = (\<lambda>k. if k = ''precipitation''
               then Some [Some 0, Some 0, Some 0, Some 0, Some 0]
               else Some [Some 0.3, Some 0.3, Some 0.2, Some 0.2, Some 0.2])\<rparr> 4) = Some 0
      \<longleftrightarrow> (4::nat) < 3)"
proof -
  let ?H = "\<lparr>hourly_time = [], series = (\<lambda>k. if k = ''precipitation''
            then Some [Some 0, Some 0, Some 0, Some 0, Some (0::real)]
            else Some [Some 0.3, Some 0.3, Some 0.2, Some 0.2, Some 0.2])\<rparr>"
  obtain w where w: "weather_at ''Ascot'' ''UK'' ''2025-10-20T04:00:00'' ''2025-10-20T03:10:00'' ?H 4 = Some w"
    using weather_at_complete [OF dry_complete] by blast
  have p: "series ?H ''precipitation'' = Some [Some 0, Some 0, Some 0, Some 0, Some 0]" by simp
  have "{Suc 0..<4} = {1, 2, 3}" by auto
  with rainfall_window_Some [OF weather_at_fields(2) [OF w] p]
  have "rainfall_3h w = 0" by simp
  then show ?thesis by (simp add: w)
qed

text \<open>
  Claim C4, amended. In a returned record, \<open>rainfall_1h\<close>, \<open>rainfall_3h\<close>, \<open>rainfall_6h\<close> and
  \<open>rainfall_24h\<close> are \<open>0\<close> whenever \<open>idx\<close> is below the window size \<open>1\<close>, \<open>3\<close>, \<open>6\<close> or \<open>24\<close>,
  and \<open>rainfall_7d\<close> is \<open>0\<close> when \<open>idx = 0\<close>. The converse is not claimed.
\<close>

theorem rainfall_zero_when_clipped:
  assumes "weather_at v c race_iso now_iso hourly idx = Some w"
  shows "(idx < 1 \<longrightarrow> rainfall_1h w = Some 0)
     \<and> (idx < 3 \<longrightarrow> rainfall_3h w = 0)
     \<and> (idx < 6 \<longrightarrow> rainfall_6h w = 0)
     \<and> (idx < 24 \<longrightarrow> rainfall_24h w = 0)
     \<and> (idx = 0 \<longrightarrow> rainfall_7d w = 0)"
  using weather_at_fields(1-5) [OF assms]
  by (auto simp: rainfall_window_def)

theorem rainfall_zero_when_clipped_witness:
  "map_option (\<lambda>w. (rainfall_1h w, rainfall_3h w, rainfall_6h w, rainfall_24h w, rainfall_7d w))
     (weather_at ''Ascot'' ''UK'' ''2025-10-20T00:00:00'' ''2025-10-19T23:10:00''
        \<lparr>hourly_time = [], series = (\<lambda>k. if k = ''precipitation''
            then Some [Some 0, Some 0, Some 2, Some 0, Some 0]
            else Some [Some 0.3, Some 0.3, Some 0.2, Some 0.2, Some 0.2])\<rparr> 0)
   = Some (Some 0, 0, 0, 0, 0)"
proof -
  let ?H = "\<lparr>hourly_time = [], series = (\<lambda>k. if k = ''precipitation''
            then Some [Some 0, Some 0, Some 2, Some 0, Some (0::real)]
            else Some [Some 0.3, Some 0.3, Some 0.2, Some 0.2, Some 0.2])\<rparr>"
  obtain w where w: "weather_at ''Ascot'' ''UK'' ''2025-10-20T00:00:00'' ''2025-10-19T23:10:00'' ?H 0 = Some w"
    using weather_at_complete [OF sample_complete_0] by blast
  from rainfall_zero_when_clipped [OF w] show ?thesis by (simp add: w)
qed

section \<open>Hours since rain\<close>



section \<open>Going classification\<close>



section \<open>Track trend\<close>

text \<open>
  Claim C7. In a returned record \<open>track_drying\<close> and \<open>track_wetting\<close> are never both true;
  drying holds exactly when \<open>idx \<ge> 3\<close> and the surface moisture at \<open>idx\<close> is strictly below
  its value at \<open>idx - 3\<close>, wetting exactly when \<open>idx \<ge> 3\<close> and it is strictly above; both
  are false exactly when \<open>idx < 3\<close> or the two values are equal.
\<close>
theorem track_flags_exclusive:
  assumes "weather_at v c race_iso now_iso hourly idx = Some w"
    and "series hourly ''soil_moisture_0_to_1cm'' = Some sm"
  shows "idx < length sm \<and> sm ! idx \<noteq> None
     \<and> \<not> (track_drying w \<and> track_wetting w)
     \<and> (idx \<ge> 3 \<longrightarrow> sm ! (idx - 3) \<noteq> None)
     \<and> (track_drying w \<longleftrightarrow> idx \<ge> 3 \<and> the (sm ! idx) < the (sm ! (idx - 3)))
     \<and> (track_wetting w \<longleftrightarrow> idx \<ge> 3 \<and> the (sm ! idx) > the (sm ! (idx - 3)))
     \<and> ((\<not> track_drying w \<and> \<not> track_wetting w)
           \<longleftrightarrow> (idx < 3 \<or> the (sm ! idx) = the (sm ! (idx - 3))))"
proof -
  from weather_at_surface [OF assms] obtain s where len: "idx < length sm"
    and s: "sm ! idx = Some s" and t: "track_trend hourly idx s = Some (track_drying w, track_wetting w)"
    by blast
  show ?thesis
  proof (cases "idx \<ge> 3")
    case True
    with t obtain m where m: "hourly_num hourly ''soil_moisture_0_to_1cm'' (idx - 3) = Some m"
      and d: "track_drying w = (s < m)" "track_wetting w = (s > m)"
      by (auto simp: track_trend_def bind_eq_Some_conv)
    from m assms(2) have "sm ! (idx - 3) = Some m" by (simp add: hourly_num_Some_iff)
    with len s d True show ?thesis by auto
  next
    case False
    with t len s show ?thesis by (auto simp: track_trend_def)
  qed
qed

theorem track_flags_exclusive_witness:
  "map_option (\<lambda>w. (track_drying w, track_wetting w))
     (weather_at ''Ascot'' ''UK'' ''2025-10-20T04:00:00'' ''2025-10-20T03:10:00''
        \<lparr>hourly_time = [], series = (\<lambda>k. if k = ''precipitation''
            then Some [Some 0, Some 0, Some 2, Some 0, Some 0]
            else Some [Some 0.3, Some 0.3, Some 0.2, Some 0.2, Some 0.2])\<rparr> 4)
   = Some (True, False)"
proof -
  let ?H = "\<lparr>hourly_time = [], series = (\<lambda>k. if k = ''precipitation''
            then Some [Some 0, Some 0, Some 2, Some 0, Some (0::real)]
            else Some [Some 0.3, Some 0.3, Some 0.2, Some 0.2, Some 0.2])\<rparr>"
  obtain w where w: "weather_at ''Ascot'' ''UK'' ''2025-10-20T04:00:00'' ''2025-10-20T03:10:00'' ?H 4 = Some w"
    using weather_at_complete [OF sample_complete] by blast
  have s: "series ?H ''soil_moisture_0_to_1cm'' = Some [Some 0.3, Some 0.3, Some 0.2, Some 0.2, Some 0.2]" by simp
  from track_flags_exclusive [OF w s] show ?thesis by (simp add: w)
qed

section \<open>The periodic store\<close>



section \<open>The race-linked store\<close>




section \<open>The scheduled run\<close>




section \<open>The tallies\<close>



end
